theory Spec2Isabelle
  imports Main
begin

section \<open>Exceptions and sequencing\<close>

text \<open>
  The exceptions of \<^verbatim>\<open>demo.py\<close>. \<^verbatim>\<open>sys.exit(n)\<close> raises \<^verbatim>\<open>SystemExit\<close>,
  which derives from \<^verbatim>\<open>BaseException\<close> and not from \<^verbatim>\<open>Exception\<close>: a handler
  \<^verbatim>\<open>except Exception\<close> lets it pass. Every other exception of the program
  (\<^verbatim>\<open>RuntimeError\<close>, \<^verbatim>\<open>subprocess.TimeoutExpired\<close>, \<^verbatim>\<open>json.JSONDecodeError\<close>,
  whatever else a library call raises, as \<open>Failure\<close> with its name) derives from
  \<^verbatim>\<open>Exception\<close>.
\<close>

datatype exc =
  SystemExit int | RuntimeError string | TimeoutExpired | JSONDecodeError | Failure string

fun is_Exception :: "exc \<Rightarrow> bool" where
  "is_Exception (SystemExit n) = False"
| "is_Exception (RuntimeError m) = True"
| "is_Exception TimeoutExpired = True"
| "is_Exception JSONDecodeError = True"
| "is_Exception (Failure m) = True"

text \<open>A statement either raises (\<open>Inl\<close>) or completes (\<open>Inr\<close>), and leaves a state.\<close>

type_synonym ('s, 'a) run = "'s \<Rightarrow> (exc + 'a) \<times> 's"

definition and_then :: "('s, 'a) run \<Rightarrow> ('a \<Rightarrow> ('s, 'b) run) \<Rightarrow> ('s, 'b) run" where
  "and_then m f s = (case m s of (Inl e, t) \<Rightarrow> (Inl e, t) | (Inr a, t) \<Rightarrow> f a t)"

text \<open>\<^verbatim>\<open>try: m  except Exception: pass\<close>\<close>

definition swallow :: "('s, unit) run \<Rightarrow> ('s, unit) run" where
  "swallow m s =
     (case m s of
        (Inl e, t) \<Rightarrow> if is_Exception e then (Inr (), t) else (Inl e, t)
      | (Inr u, t) \<Rightarrow> (Inr (), t))"

section \<open>The server process\<close>

text \<open>
  \<^verbatim>\<open>subprocess.Popen\<close>, as far as the program uses it. \<open>delivered\<close> lists the
  signals that reached the process. \<^verbatim>\<open>Popen.send_signal\<close> does nothing once the
  process has completed; \<^verbatim>\<open>SIGKILL\<close> cannot be handled, so the process is gone
  when it is delivered; \<^verbatim>\<open>SIGTERM\<close> asks the process to exit, which takes the
  time the process needs.
\<close>

datatype signal = SIGTERM | SIGKILL

record popen =
  pid :: nat
  exited :: bool
  delivered :: "signal list"

definition send_signal :: "signal \<Rightarrow> popen \<Rightarrow> popen" where
  "send_signal sg p =
     (if exited p then p
      else p\<lparr>delivered := delivered p @ [sg], exited := (sg = SIGKILL)\<rparr>)"

definition terminate :: "popen \<Rightarrow> popen" where
  "terminate p = send_signal SIGTERM p"

definition kill :: "popen \<Rightarrow> popen" where
  "kill p = send_signal SIGKILL p"

text \<open>
  \<^verbatim>\<open>Popen.wait(timeout)\<close>, the timeout in seconds. \<open>delay\<close> is the time in
  milliseconds that the server needs to exit after \<^verbatim>\<open>SIGTERM\<close> (\<open>None\<close>: it
  never does). A server that was not asked to exit keeps serving.
\<close>

definition wait :: "nat option \<Rightarrow> nat \<Rightarrow> popen \<Rightarrow> (exc + unit) \<times> popen" where
  "wait delay timeout p =
     (if exited p then (Inr (), p)
      else if SIGTERM \<in> set (delivered p) \<and>
              (case delay of None \<Rightarrow> False | Some d \<Rightarrow> d \<le> 1000 * timeout)
      then (Inr (), p\<lparr>exited := True\<rparr>)
      else (Inl TimeoutExpired, p))"

section \<open>The outside world\<close>

datatype json =
    JNull | JBool bool | JNum int | JStr string
  | JArr "json list" | JObj "(string \<times> json) list"

datatype content = TextContent string | OtherContent

datatype probe_result = Status nat | RequestError | ProbeError string

datatype resource = Transport | Session

datatype connect_step = EnterTransport | EnterSession | Initialize

datatype client_session = ClientSession

record reply =
  reply_content :: "content list"
  reply_isError :: "bool option"

text \<open>
  Everything the program asks of its surroundings: the file system and \<^verbatim>\<open>PATH\<close>,
  the two command-line collaborators, the environment variable, the server and its
  health endpoint, the MCP library, the JSON decoder and the operator. The decoder
  \<^verbatim>\<open>json.loads\<close> returns the parsed value or raises: \<^verbatim>\<open>JSONDecodeError\<close> for
  text that is not JSON, and other exceptions too (\<^verbatim>\<open>RecursionError\<close> on deep
  nesting, \<^verbatim>\<open>ValueError\<close> on an integer literal beyond the digit limit).
\<close>

record world =
  which_vmcp :: bool
  which_thv :: bool
  config_exists :: bool
  thv_list_ok :: bool
  validate_ok :: bool
  AUTO_CONTINUE :: bool
  popen_ok :: bool
  server_pid :: nat
  health :: "nat \<Rightarrow> probe_result"
  term_delay :: "nat option"
  connect_fault :: "connect_step option"
  release_raises :: "resource \<Rightarrow> bool"
  call_tool :: "string \<Rightarrow> (string \<times> json) list \<Rightarrow> string + reply"
  json_loads :: "string \<Rightarrow> exc + json"
  keep_running :: string

section \<open>Global state\<close>

text \<open>
  The module-level variables \<^verbatim>\<open>vmcp_process\<close>, \<^verbatim>\<open>mcp_session\<close> and
  \<^verbatim>\<open>exit_stack\<close> (\<open>None\<close> as in the source), and what the run has done so far:
  the release callbacks fired, the remote calls issued, the health probes made,
  whether the cleanup handlers for \<^verbatim>\<open>SIGINT\<close> and \<^verbatim>\<open>SIGTERM\<close> are installed
  and whether the event loop of \<^verbatim>\<open>asyncio.run\<close> is running. An
  \<^verbatim>\<open>AsyncExitStack\<close> is the list of the callbacks pushed, the latest last.
  Console output is presentation and is not part of the state.
\<close>

record state =
  vmcp_process :: "popen option"
  mcp_session :: "client_session option"
  exit_stack :: "resource list option"
  released :: "resource list"
  requests :: "(string \<times> (string \<times> json) list) list"
  probes :: nat
  handlers :: bool
  loop_running :: bool

definition initial :: state where
  "initial = \<lparr>vmcp_process = None, mcp_session = None, exit_stack = None,
              released = [], requests = [], probes = 0,
              handlers = False, loop_running = False\<rparr>"

definition stack_contents :: "state \<Rightarrow> resource list" where
  "stack_contents s = (case exit_stack s of None \<Rightarrow> [] | Some cbs \<Rightarrow> cbs)"

section \<open>Teardown\<close>

text \<open>
  \<^verbatim>\<open>AsyncExitStack.aclose\<close>: pops and runs every callback, the latest first, also
  after one of them has raised, and raises at the end if one did.
\<close>

definition aclose :: "world \<Rightarrow> (state, unit) run" where
  "aclose w s =
     (case exit_stack s of
        None \<Rightarrow> (Inr (), s)
      | Some cbs \<Rightarrow>
          (if list_ex (release_raises w) cbs then Inl (Failure ''release'') else Inr (),
           s\<lparr>exit_stack := Some [], released := released s @ rev cbs\<rparr>))"

text \<open>
  The second half of \<^verbatim>\<open>cleanup_async\<close>, on the process handle:
  \<^verbatim>\<open>terminate()\<close>, then \<^verbatim>\<open>wait(timeout=3)\<close>, and \<^verbatim>\<open>kill()\<close> under
  \<^verbatim>\<open>except subprocess.TimeoutExpired\<close>.
\<close>

definition stop_server :: "world \<Rightarrow> popen \<Rightarrow> (exc + unit) \<times> popen" where
  "stop_server w p =
     (case wait (term_delay w) 3 (terminate p) of
        (Inr u, q) \<Rightarrow> (Inr (), q)
      | (Inl e, q) \<Rightarrow> if e = TimeoutExpired then (Inr (), kill q) else (Inl e, q))"

definition cleanup_async :: "world \<Rightarrow> (state, unit) run" where
  "cleanup_async w =
     and_then (\<lambda>s. if exit_stack s \<noteq> None then swallow (aclose w) s else (Inr (), s))
       (\<lambda>u s. case vmcp_process s of
                 None \<Rightarrow> (Inr (), s)
               | Some p \<Rightarrow>
                   (case stop_server w p of
                      (r, q) \<Rightarrow> (r, s\<lparr>vmcp_process := Some q\<rparr>)))"

text \<open>
  \<^verbatim>\<open>cleanup\<close>: \<^verbatim>\<open>asyncio.run\<close> raises \<^verbatim>\<open>RuntimeError\<close> when an event loop is
  already running in the thread, and then \<^verbatim>\<open>cleanup_async\<close> does not run; the
  wrapper passes over every \<^verbatim>\<open>Exception\<close>.
\<close>

definition cleanup :: "world \<Rightarrow> (state, unit) run" where
  "cleanup w =
     swallow (\<lambda>s. if loop_running s
                  then (Inl (RuntimeError ''asyncio.run() cannot be called from a running event loop''), s)
                  else cleanup_async w s)"


section \<open>Prerequisites and the scripted steps before the server\<close>

text \<open>
  \<^verbatim>\<open>check_prerequisites\<close>: the list \<^verbatim>\<open>errors\<close>, every entry of which is
  printed, and the outcome. The three checks always run.
\<close>

definition check_prerequisites :: "world \<Rightarrow> string list \<times> (exc + unit)" where
  "check_prerequisites w =
     (let errors =
            (if \<not> which_vmcp w then [''vmcp not found in PATH. Run: task install-vmcp''] else []) @
            (if \<not> which_thv w then [''thv not found in PATH. Run: task install''] else []) @
            (if \<not> config_exists w then [''Configuration file not found: vmcp-config.yaml''] else [])
      in if errors \<noteq> [] then (errors, Inl (SystemExit 1)) else (errors, Inr ()))"

text \<open>\<^verbatim>\<open>thv list\<close> failing (\<^verbatim>\<open>CalledProcessError\<close>) ends in \<^verbatim>\<open>sys.exit(1)\<close>.\<close>

definition step_show_backends :: "world \<Rightarrow> (state, unit) run" where
  "step_show_backends w s = (if thv_list_ok w then (Inr (), s) else (Inl (SystemExit 1), s))"

text \<open>\<^verbatim>\<open>open(CONFIG_FILE)\<close> raises when the file is not there.\<close>

definition step_show_config :: "world \<Rightarrow> (state, unit) run" where
  "step_show_config w s =
     (if config_exists w then (Inr (), s) else (Inl (Failure ''FileNotFoundError''), s))"

definition step_validate_config :: "world \<Rightarrow> (state, unit) run" where
  "step_validate_config w s = (if validate_ok w then (Inr (), s) else (Inl (SystemExit 1), s))"

section \<open>Starting the server and connecting\<close>

text \<open>
  The loop \<^verbatim>\<open>for i in range(n): ... else: ...\<close> of \<^verbatim>\<open>step_start_server\<close>:
  \<open>poll_health probe i n\<close> has made \<open>i\<close> probes and has \<open>n\<close> rounds left. The
  result carries the number of probes made. A status other than 200 and
  \<^verbatim>\<open>httpx.RequestError\<close> lead to the sleep and the next round; any other
  exception leaves the loop.
\<close>

datatype poll_result = Ready | Exhausted | Raised string

fun poll_health :: "(nat \<Rightarrow> probe_result) \<Rightarrow> nat \<Rightarrow> nat \<Rightarrow> poll_result \<times> nat" where
  "poll_health probe i 0 = (Exhausted, i)"
| "poll_health probe i (Suc n) =
     (case probe i of
        Status c \<Rightarrow> if c = 200 then (Ready, Suc i) else poll_health probe (Suc i) n
      | RequestError \<Rightarrow> poll_health probe (Suc i) n
      | ProbeError m \<Rightarrow> (Raised m, Suc i))"

definition MAX_ATTEMPTS :: nat where
  "MAX_ATTEMPTS = 20"

text \<open>The body of the \<^verbatim>\<open>try\<close> block that connects the MCP client.\<close>

definition connect_client :: "world \<Rightarrow> (state, unit) run" where
  "connect_client w s =
     (let s0 = s\<lparr>exit_stack := Some []\<rparr> in
      if connect_fault w = Some EnterTransport then (Inl (Failure ''transport''), s0)
      else
        let s1 = s0\<lparr>exit_stack := Some [Transport]\<rparr> in
        if connect_fault w = Some EnterSession then (Inl (Failure ''session''), s1)
        else
          let s2 = s1\<lparr>exit_stack := Some [Transport, Session],
                      mcp_session := Some ClientSession\<rparr> in
          if connect_fault w = Some Initialize then (Inl (Failure ''initialize''), s2)
          else (Inr (), s2))"

definition step_start_server :: "world \<Rightarrow> (state, unit) run" where
  "step_start_server w s =
     (if \<not> popen_ok w then (Inl (Failure ''Popen''), s)
      else
        let s1 = s\<lparr>vmcp_process :=
                     Some \<lparr>pid = server_pid w, exited = False, delivered = []\<rparr>\<rparr>
        in case poll_health (health w) 0 MAX_ATTEMPTS of
             (Exhausted, n) \<Rightarrow> (Inl (SystemExit 1), s1\<lparr>probes := n\<rparr>)
           | (Raised m, n) \<Rightarrow> (Inl (Failure m), s1\<lparr>probes := n\<rparr>)
           | (Ready, n) \<Rightarrow>
               (case connect_client w (s1\<lparr>probes := n\<rparr>) of
                  (Inl e, t) \<Rightarrow> if is_Exception e then (Inl (SystemExit 1), t) else (Inl e, t)
                | (Inr u, t) \<Rightarrow> (Inr (), t)))"

section \<open>Remote calls and their results\<close>

record tool_result =
  content :: "content list"
  isError :: bool

definition execute_composite_tool ::
    "world \<Rightarrow> string \<Rightarrow> (string \<times> json) list \<Rightarrow> (state, tool_result) run" where
  "execute_composite_tool w tool_name params s =
     (case mcp_session s of
        None \<Rightarrow> (Inl (RuntimeError ''MCP session not initialized''), s)
      | Some session \<Rightarrow>
          (let t = s\<lparr>requests := requests s @ [(tool_name, params)]\<rparr> in
           case call_tool w tool_name params of
             Inl m \<Rightarrow> (Inl (Failure m), t)
           | Inr r \<Rightarrow>
               (Inr \<lparr>content = reply_content r,
                     isError = (case reply_isError r of None \<Rightarrow> False | Some b \<Rightarrow> b)\<rparr>, t)))"

primrec truncate_long_fields :: "json \<Rightarrow> nat \<Rightarrow> json" where
  "truncate_long_fields JNull = (\<lambda>max_length. JNull)"
| "truncate_long_fields (JBool b) = (\<lambda>max_length. JBool b)"
| "truncate_long_fields (JNum i) = (\<lambda>max_length. JNum i)"
| "truncate_long_fields (JStr t) =
     (\<lambda>max_length. if length t > max_length
                    then JStr (take max_length t @ ''... (truncated)'') else JStr t)"
| "truncate_long_fields (JArr xs) =
     (\<lambda>max_length. JArr (map (\<lambda>x. truncate_long_fields x max_length) xs))"
| "truncate_long_fields (JObj kvs) =
     (\<lambda>max_length. JObj (map (map_prod id (\<lambda>v. truncate_long_fields v max_length)) kvs))"

text \<open>
  \<^verbatim>\<open>display_workflow_result\<close>. \<open>decode_text\<close> is the \<^verbatim>\<open>try\<close> statement that
  computes \<^verbatim>\<open>parsed_result\<close>: its handler is \<^verbatim>\<open>except json.JSONDecodeError\<close>,
  and any other exception of the decoder goes on to the caller. \<open>first_text\<close> is the
  loop that stops at the first \<^verbatim>\<open>TextContent\<close>. The result is the data shown in
  the panel, \<open>None\<close> when no panel is shown.
\<close>

definition decode_text :: "(string \<Rightarrow> exc + json) \<Rightarrow> string \<Rightarrow> exc + json" where
  "decode_text loads text =
     (case loads text of
        Inr parsed \<Rightarrow> Inr parsed
      | Inl e \<Rightarrow> if e = JSONDecodeError then Inr (JObj [(''raw_output'', JStr text)])
                 else Inl e)"

fun first_text :: "content list \<Rightarrow> string option" where
  "first_text [] = None"
| "first_text (TextContent t # cs) = Some t"
| "first_text (OtherContent # cs) = first_text cs"

definition display_workflow_result ::
    "(string \<Rightarrow> exc + json) \<Rightarrow> tool_result \<Rightarrow> exc + json option" where
  "display_workflow_result loads result =
     (if content result = [] then Inr None
      else case first_text (content result) of
             None \<Rightarrow> Inr None
           | Some t \<Rightarrow>
               (case decode_text loads t of
                  Inl e \<Rightarrow> Inl e
                | Inr parsed_result \<Rightarrow> Inr (Some (truncate_long_fields parsed_result 150))))"

text \<open>
  The three demo steps: one remote call with no parameters, then the display, which
  writes to the console only and raises what the decoder raised.
\<close>

definition step_demo :: "world \<Rightarrow> string \<Rightarrow> (state, unit) run" where
  "step_demo w tool_name =
     and_then (execute_composite_tool w tool_name [])
       (\<lambda>result s. case display_workflow_result (json_loads w) result of
                      Inl e \<Rightarrow> (Inl e, s)
                    | Inr shown \<Rightarrow> (Inr (), s))"

definition step_demo_aggregate_docs :: "world \<Rightarrow> (state, unit) run" where
  "step_demo_aggregate_docs w = step_demo w ''aggregate_docs''"

definition step_demo_analyze_repo :: "world \<Rightarrow> (state, unit) run" where
  "step_demo_analyze_repo w = step_demo w ''analyze_repository''"

definition step_demo_investigate_image :: "world \<Rightarrow> (state, unit) run" where
  "step_demo_investigate_image w = step_demo w ''investigate_image''"

section \<open>The run\<close>

definition lower_char :: "char \<Rightarrow> char" where
  "lower_char c =
     (case map_of (zip ''ABCDEFGHIJKLMNOPQRSTUVWXYZ'' ''abcdefghijklmnopqrstuvwxyz'') c of
        Some d \<Rightarrow> d | None \<Rightarrow> c)"

definition lower :: "string \<Rightarrow> string" where
  "lower t = map lower_char t"

text \<open>
  The branch of \<^verbatim>\<open>async_main\<close> taken when the operator answers \<^verbatim>\<open>y\<close>: the
  session is closed, the server is kept, the handlers go back to the default.
\<close>

definition detach :: "world \<Rightarrow> (state, unit) run" where
  "detach w =
     and_then (\<lambda>s. if exit_stack s \<noteq> None then swallow (aclose w) s else (Inr (), s))
       (\<lambda>u s. (Inr (), s\<lparr>handlers := False\<rparr>))"

definition finish :: "world \<Rightarrow> (state, unit) run" where
  "finish w =
     (if \<not> AUTO_CONTINUE w
      then (if lower (keep_running w) \<noteq> ''y'' then cleanup_async w else detach w)
      else cleanup_async w)"

definition steps :: "world \<Rightarrow> (state, unit) run" where
  "steps w =
     and_then (\<lambda>s. (snd (check_prerequisites w), s)) (\<lambda>u.
     and_then (step_show_backends w) (\<lambda>u.
     and_then (step_show_config w) (\<lambda>u.
     and_then (step_validate_config w) (\<lambda>u.
     and_then (step_start_server w) (\<lambda>u.
     and_then (step_demo_aggregate_docs w) (\<lambda>u.
     and_then (step_demo_analyze_repo w) (\<lambda>u.
     and_then (step_demo_investigate_image w) (\<lambda>u.
     finish w))))))))"

text \<open>
  \<^verbatim>\<open>async_main\<close>: the steps (\<open>steps\<close> and \<open>finish\<close> above), under
  \<^verbatim>\<open>except Exception\<close> with cleanup and exit 1. \<^verbatim>\<open>step_introduction\<close>,
  \<^verbatim>\<open>step_summary\<close> and \<^verbatim>\<open>wait_for_user\<close> write to the console and wait for
  the operator; they do not touch the state and are left out.
\<close>

definition async_main :: "world \<Rightarrow> (state, unit) run" where
  "async_main w s =
     (case steps w s of
        (Inl e, t) \<Rightarrow>
          if is_Exception e
          then and_then (cleanup_async w) (\<lambda>u r. (Inl (SystemExit 1), r)) t
          else (Inl e, t)
      | (Inr u, t) \<Rightarrow> (Inr (), t))"

text \<open>
  \<^verbatim>\<open>main\<close>, from a fresh interpreter: the exit status of the process and the
  state it leaves. An uncaught \<^verbatim>\<open>SystemExit n\<close> ends the process with status \<open>n\<close>.
\<close>

definition main :: "world \<Rightarrow> int \<times> state" where
  "main w =
     (case async_main w (initial\<lparr>handlers := True, loop_running := True\<rparr>) of
        (Inr u, t) \<Rightarrow> (0, t\<lparr>loop_running := False\<rparr>)
      | (Inl e, t) \<Rightarrow>
          if is_Exception e
          then (1, snd (cleanup w (t\<lparr>loop_running := False\<rparr>)))
          else (case e of SystemExit n \<Rightarrow> (n, t\<lparr>loop_running := False\<rparr>)
                        | _ \<Rightarrow> (1, t\<lparr>loop_running := False\<rparr>)))"

text \<open>
  The two handlers again, each applied to the outcome of what it guards: the
  \<^verbatim>\<open>except Exception\<close> clause of \<^verbatim>\<open>async_main\<close>, and the end of \<^verbatim>\<open>main\<close>
  after \<^verbatim>\<open>asyncio.run\<close> has returned or raised.
\<close>

definition async_main_except :: "world \<Rightarrow> (exc + unit) \<times> state \<Rightarrow> (exc + unit) \<times> state" where
  "async_main_except w r =
     (case r of
        (Inl e, t) \<Rightarrow>
          if is_Exception e
          then and_then (cleanup_async w) (\<lambda>u r. (Inl (SystemExit 1), r)) t
          else (Inl e, t)
      | (Inr u, t) \<Rightarrow> (Inr (), t))"

definition main_exit :: "world \<Rightarrow> (exc + unit) \<times> state \<Rightarrow> int \<times> state" where
  "main_exit w r =
     (case r of
        (Inr u, t) \<Rightarrow> (0, t\<lparr>loop_running := False\<rparr>)
      | (Inl e, t) \<Rightarrow>
          if is_Exception e
          then (1, snd (cleanup w (t\<lparr>loop_running := False\<rparr>)))
          else (case e of SystemExit n \<Rightarrow> (n, t\<lparr>loop_running := False\<rparr>)
                        | _ \<Rightarrow> (1, t\<lparr>loop_running := False\<rparr>)))"


text \<open>A server process that was started and is still there.\<close>

definition server_running :: "state \<Rightarrow> bool" where
  "server_running s = (case vmcp_process s of None \<Rightarrow> False | Some p \<Rightarrow> \<not> exited p)"

section \<open>Notions used by the properties\<close>

text \<open>
  A probe outcome after which the loop goes on to the next round: a status other than
  200, or \<^verbatim>\<open>httpx.RequestError\<close>, the base class of what \<^verbatim>\<open>httpx\<close> raises
  when a request fails.
\<close>

fun not_ready :: "probe_result \<Rightarrow> bool" where
  "not_ready (Status c) = (c \<noteq> 200)"
| "not_ready RequestError = True"
| "not_ready (ProbeError m) = False"

text \<open>The server exits within the three seconds that \<^verbatim>\<open>cleanup_async\<close> waits.\<close>

definition within_grace :: "world \<Rightarrow> bool" where
  "within_grace w = (case term_delay w of None \<Rightarrow> False | Some d \<Rightarrow> d \<le> 3000)"

definition stop_signals :: "world \<Rightarrow> signal list" where
  "stop_signals w = (if within_grace w then [SIGTERM] else [SIGTERM, SIGKILL])"

text \<open>The client session has been closed: its release callback has fired.\<close>

definition session_closed :: "state \<Rightarrow> bool" where
  "session_closed s = (Session \<in> set (released s))"

section \<open>Concrete surroundings\<close>

text \<open>
  A world in which everything works: the server answers the third probe, exits half a
  second after \<^verbatim>\<open>SIGTERM\<close>, every tool replies with an empty JSON object, and the
  operator declines to keep the server. The others differ from it in one respect.
\<close>

definition demo_world :: world where
  "demo_world =
     \<lparr>which_vmcp = True, which_thv = True, config_exists = True, thv_list_ok = True,
      validate_ok = True, AUTO_CONTINUE = False, popen_ok = True, server_pid = 4242,
      health = (\<lambda>i. if i < 2 then RequestError else Status 200),
      term_delay = Some 500, connect_fault = None, release_raises = (\<lambda>r. False),
      call_tool = (\<lambda>tool_name params.
                     Inr \<lparr>reply_content = [TextContent ''{}''], reply_isError = None\<rparr>),
      json_loads = (\<lambda>t. if t = ''{}'' then Inr (JObj []) else Inl JSONDecodeError),
      keep_running = ''n''\<rparr>"

definition never_ready_world :: world where
  "never_ready_world = demo_world\<lparr>health := (\<lambda>i. Status 503)\<rparr>"

definition refused_world :: world where
  "refused_world = demo_world\<lparr>connect_fault := Some EnterTransport\<rparr>"

definition handshake_fails_world :: world where
  "handshake_fails_world = demo_world\<lparr>connect_fault := Some Initialize\<rparr>"

definition remote_fails_world :: world where
  "remote_fails_world = demo_world\<lparr>call_tool := (\<lambda>tool_name params. Inl ''boom'')\<rparr>"

definition stubborn_world :: world where
  "stubborn_world = demo_world\<lparr>term_delay := None\<rparr>"

definition keep_world :: world where
  "keep_world = demo_world\<lparr>keep_running := ''Y''\<rparr>"

definition bare_world :: world where
  "bare_world = demo_world\<lparr>which_vmcp := False, config_exists := False\<rparr>"



definition spawned :: popen where
  "spawned = \<lparr>pid = 4242, exited = False, delivered = []\<rparr>"

text \<open>The state of a run that has connected and is issuing its remote calls.\<close>

definition connected :: state where
  "connected =
     \<lparr>vmcp_process = Some spawned, mcp_session = Some ClientSession,
      exit_stack = Some [Transport, Session], released = [], requests = [],
      probes = 3, handlers = True, loop_running = True\<rparr>"

text \<open>The state that the run in \<open>demo_world\<close> ends in.\<close>

definition torn_down :: state where
  "torn_down =
     \<lparr>vmcp_process = Some (spawned\<lparr>delivered := [SIGTERM], exited := True\<rparr>),
      mcp_session = Some ClientSession, exit_stack = Some [],
      released = [Session, Transport],
      requests = [(''aggregate_docs'', []), (''analyze_repository'', []),
                  (''investigate_image'', [])],
      probes = 3, handlers = True, loop_running = False\<rparr>"

section \<open>Teardown: results\<close>

lemma send_signal_exited: "exited p \<Longrightarrow> send_signal sg p = p"
  by (simp add: send_signal_def)

lemma stop_server_exited: "exited p \<Longrightarrow> stop_server w p = (Inr (), p)"
  by (simp add: stop_server_def terminate_def send_signal_def wait_def)

lemma stop_server_running:
  "\<not> exited p \<Longrightarrow>
   stop_server w p =
     (Inr (),
      p\<lparr>delivered := delivered p @
           (if (case term_delay w of None \<Rightarrow> False | Some d \<Rightarrow> d \<le> 3000)
            then [SIGTERM] else [SIGTERM, SIGKILL]),
        exited := True\<rparr>)"
  by (simp add: stop_server_def terminate_def kill_def send_signal_def wait_def
           split: option.splits)

lemma stop_server_returns: "fst (stop_server w p) = Inr ()"
  by (cases "exited p") (simp_all add: stop_server_exited stop_server_running)

lemma exited_stop_server: "exited (snd (stop_server w p))"
  by (cases "exited p") (simp_all add: stop_server_exited stop_server_running)

lemma cleanup_async_state:
  "cleanup_async w s =
     (Inr (),
      s\<lparr>exit_stack := (case exit_stack s of None \<Rightarrow> None | Some cbs \<Rightarrow> Some []),
        released := released s @ rev (stack_contents s),
        vmcp_process := map_option (\<lambda>p. snd (stop_server w p)) (vmcp_process s)\<rparr>)"
  by (cases "exit_stack s"; cases "vmcp_process s")
     (simp_all add: cleanup_async_def and_then_def swallow_def aclose_def stack_contents_def
        case_prod_unfold stop_server_returns)

lemma stop_server_signals:
  "\<not> exited p \<Longrightarrow>
   stop_server w p
     = (Inr (), p\<lparr>delivered := delivered p @ stop_signals w, exited := True\<rparr>)"
  by (simp add: stop_server_running stop_signals_def within_grace_def)


text \<open>
  C9. Stopping the server delivers \<^verbatim>\<open>SIGTERM\<close> first and waits three seconds; the
  process is killed exactly when it has not exited within them, and \<^verbatim>\<open>SIGKILL\<close>
  then comes after \<^verbatim>\<open>SIGTERM\<close>. A process that exits in time gets \<^verbatim>\<open>SIGTERM\<close>
  only.
\<close>

theorem cleanup_async_graceful_then_kill:
  assumes "vmcp_process s = Some p" and "\<not> exited p"
  shows "\<exists>q. vmcp_process (snd (cleanup_async w s)) = Some q \<and> exited q \<and> pid q = pid p \<and>
             delivered q = delivered p @ [SIGTERM] @ (if within_grace w then [] else [SIGKILL])"
  using assms by (simp add: cleanup_async_state stop_server_signals stop_signals_def)

theorem cleanup_async_graceful_then_kill_witness:
  "(\<exists>q. vmcp_process (snd (cleanup_async demo_world connected)) = Some q \<and> exited q \<and>
        pid q = 4242 \<and> delivered q = [SIGTERM]) \<and>
   (\<exists>q. vmcp_process (snd (cleanup_async stubborn_world connected)) = Some q \<and> exited q \<and>
        pid q = 4242 \<and> delivered q = [SIGTERM, SIGKILL])"
  using cleanup_async_graceful_then_kill [of connected spawned demo_world]
    cleanup_async_graceful_then_kill [of connected spawned stubborn_world]
  by (simp add: connected_def spawned_def within_grace_def demo_world_def stubborn_world_def)

text \<open>
  C5. The teardown \<^verbatim>\<open>cleanup_async\<close> is idempotent: run a second time it returns
  normally and leaves the state as the first run left it, with the resource stack
  empty and each callback that was on the stack fired once, the latest first. This
  holds from every state, also with no stack or an empty one.
\<close>

theorem cleanup_async_idempotent:
  "cleanup_async w (snd (cleanup_async w s)) = (Inr (), snd (cleanup_async w s)) \<and>
   released (snd (cleanup_async w s)) = released s @ rev (stack_contents s) \<and>
   stack_contents (snd (cleanup_async w s)) = []"
proof -
  have "map_option (\<lambda>p. snd (stop_server w p))
          (map_option (\<lambda>p. snd (stop_server w p)) (vmcp_process s))
        = map_option (\<lambda>p. snd (stop_server w p)) (vmcp_process s)"
    by (cases "vmcp_process s") (simp_all add: stop_server_exited exited_stop_server)
  then show ?thesis
    by (cases "exit_stack s") (simp_all add: cleanup_async_state stack_contents_def)
qed

theorem cleanup_async_idempotent_witness:
  "cleanup_async stubborn_world (snd (cleanup_async stubborn_world connected))
     = (Inr (), snd (cleanup_async stubborn_world connected)) \<and>
   released (snd (cleanup_async stubborn_world connected)) = [Session, Transport] \<and>
   stack_contents (snd (cleanup_async stubborn_world connected)) = []"
  using cleanup_async_idempotent [of stubborn_world connected]
  by (simp add: connected_def stack_contents_def)

section \<open>Readiness polling: results\<close>

lemma poll_health_exhausted:
  "(\<forall>j<n. not_ready (probe (i + j))) \<Longrightarrow> poll_health probe i n = (Exhausted, i + n)"
proof (induction n arbitrary: i)
  case 0
  then show ?case by simp
next
  case (Suc n)
  have nr: "not_ready (probe i)" using Suc.prems [rule_format, of 0] by simp
  have rest: "\<forall>j<n. not_ready (probe (Suc i + j))"
    using Suc.prems by (auto dest: spec [of _ "Suc j" for j])
  have "poll_health probe (Suc i) n = (Exhausted, Suc i + n)"
    by (rule Suc.IH [OF rest])
  with nr show ?case by (cases "probe i") simp_all
qed

lemma poll_health_ready:
  "K < n \<Longrightarrow> (\<forall>j<K. not_ready (probe (i + j))) \<Longrightarrow> probe (i + K) = Status 200 \<Longrightarrow>
   poll_health probe i n = (Ready, Suc (i + K))"
proof (induction K arbitrary: i n)
  case 0
  then obtain m where "n = Suc m" by (cases n) auto
  with 0 show ?case by simp
next
  case (Suc K)
  then obtain m where n: "n = Suc m" and Km: "K < m" by (cases n) auto
  have nr: "not_ready (probe i)" using Suc.prems(2) [rule_format, of 0] by simp
  have rest: "\<forall>j<K. not_ready (probe (Suc i + j))"
    using Suc.prems(2) by (auto dest: spec [of _ "Suc j" for j])
  have "poll_health probe (Suc i) m = (Ready, Suc (Suc i + K))"
    using Suc.IH [OF Km rest] Suc.prems(3) by simp
  with nr n show ?case by (cases "probe i") simp_all
qed

text \<open>
  C4. A probe that is not ready on its first \<open>K\<close> invocations and answers 200 on the
  next makes the loop, given more than \<open>K\<close> rounds, end ready after \<open>K + 1\<close>
  invocations. A probe that is never ready is invoked once per round and no more, and
  the loop ends exhausted; in \<^verbatim>\<open>step_start_server\<close>, with its 20 rounds, that is 20
  probes and then \<^verbatim>\<open>sys.exit(1)\<close>.
\<close>

theorem poll_health_bounded_retry:
  "(K < n \<and> (\<forall>j<K. not_ready (probe j)) \<and> probe K = Status 200
      \<longrightarrow> poll_health probe 0 n = (Ready, K + 1)) \<and>
   ((\<forall>j<n. not_ready (probe j)) \<longrightarrow> poll_health probe 0 n = (Exhausted, n)) \<and>
   (popen_ok w \<and> (\<forall>j<20. not_ready (health w j))
      \<longrightarrow> fst (step_start_server w s) = Inl (SystemExit 1) \<and>
          probes (snd (step_start_server w s)) = 20)"
  using poll_health_ready [of K n probe 0] poll_health_exhausted [of n probe 0]
    poll_health_exhausted [of 20 "health w" 0]
  by (simp add: step_start_server_def MAX_ATTEMPTS_def)

theorem poll_health_bounded_retry_witness:
  "poll_health (health demo_world) 0 20 = (Ready, 3) \<and>
   poll_health (health never_ready_world) 0 20 = (Exhausted, 20) \<and>
   fst (step_start_server never_ready_world initial) = Inl (SystemExit 1) \<and>
   probes (snd (step_start_server never_ready_world initial)) = 20"
  using poll_health_bounded_retry [of 2 20 "health demo_world" never_ready_world initial]
    poll_health_bounded_retry [of 0 20 "health never_ready_world" never_ready_world initial]
  by (simp add: demo_world_def never_ready_world_def)


section \<open>Detaching: results\<close>

text \<open>
  C6. When the operator answers \<^verbatim>\<open>y\<close> at the end of the run, the callbacks of the
  client session and of the transport fire and the resource stack is empty, while the
  process handle is as it was: the server is still running and no signal has been sent
  to it.
\<close>

theorem detach_keeps_server:
  assumes "\<not> AUTO_CONTINUE w" and "lower (keep_running w) = ''y''"
    and "vmcp_process s = Some p" and "\<not> exited p"
  shows "\<exists>t. finish w s = (Inr (), t) \<and> vmcp_process t = Some p \<and> server_running t \<and>
             stack_contents t = [] \<and> released t = released s @ rev (stack_contents s)"
  using assms
  by (cases "exit_stack s")
     (simp_all add: finish_def detach_def and_then_def swallow_def aclose_def
        stack_contents_def server_running_def)

theorem detach_keeps_server_witness:
  "\<exists>t. finish keep_world connected = (Inr (), t) \<and> vmcp_process t = Some spawned \<and>
       server_running t \<and> stack_contents t = [] \<and> released t = [Session, Transport]"
proof -
  have ask: "\<not> AUTO_CONTINUE keep_world" and yes: "lower (keep_running keep_world) = ''y''"
    by (simp_all add: keep_world_def demo_world_def lower_def lower_char_def)
  have proc: "vmcp_process connected = Some spawned" and run: "\<not> exited spawned"
    and rel: "released connected @ rev (stack_contents connected) = [Session, Transport]"
    by (simp_all add: connected_def spawned_def stack_contents_def)
  from detach_keeps_server [OF ask yes proc run] show ?thesis
    unfolding rel .
qed

section \<open>Remote calls: results\<close>






text \<open>
  C8, for an absent session. With no session (\<^verbatim>\<open>mcp_session\<close> is \<^verbatim>\<open>None\<close>),
  \<^verbatim>\<open>execute_composite_tool\<close> raises \<^verbatim>\<open>RuntimeError\<close> for every tool name and
  every parameter mapping and issues no remote call.
\<close>

theorem execute_composite_tool_without_session:
  assumes "mcp_session s = None"
  shows "execute_composite_tool w tool_name params s
           = (Inl (RuntimeError ''MCP session not initialized''), s)"
  using assms by (simp add: execute_composite_tool_def)

theorem execute_composite_tool_without_session_witness:
  "execute_composite_tool demo_world ''aggregate_docs'' [(''url'', JStr ''x'')] initial
     = (Inl (RuntimeError ''MCP session not initialized''), initial)"
proof -
  have "mcp_session initial = None" by (simp add: initial_def)
  then show ?thesis by (rule execute_composite_tool_without_session)
qed

section \<open>Prerequisites: results\<close>

text \<open>
  C10. Each of the three prerequisites that is missing has its message in the list
  reported. If any is missing, the check exits with status 1, and the run ends there
  with that status and with the state untouched: no process, no session, no resource
  stack. If none is missing, the check reports nothing and returns.
\<close>

theorem check_prerequisites_aggregates:
  "(\<not> which_vmcp w \<longrightarrow>
      ''vmcp not found in PATH. Run: task install-vmcp'' \<in> set (fst (check_prerequisites w))) \<and>
   (\<not> which_thv w \<longrightarrow>
      ''thv not found in PATH. Run: task install'' \<in> set (fst (check_prerequisites w))) \<and>
   (\<not> config_exists w \<longrightarrow>
      ''Configuration file not found: vmcp-config.yaml'' \<in> set (fst (check_prerequisites w))) \<and>
   (\<not> (which_vmcp w \<and> which_thv w \<and> config_exists w) \<longrightarrow>
      snd (check_prerequisites w) = Inl (SystemExit 1) \<and>
      async_main w s = (Inl (SystemExit 1), s) \<and>
      main w = (1, initial\<lparr>handlers := True\<rparr>)) \<and>
   (which_vmcp w \<and> which_thv w \<and> config_exists w \<longrightarrow> check_prerequisites w = ([], Inr ()))"
  by (simp add: check_prerequisites_def main_def async_main_def steps_def and_then_def
        initial_def)

theorem check_prerequisites_aggregates_witness:
  "fst (check_prerequisites bare_world)
     = [''vmcp not found in PATH. Run: task install-vmcp'',
        ''Configuration file not found: vmcp-config.yaml''] \<and>
   snd (check_prerequisites bare_world) = Inl (SystemExit 1) \<and>
   main bare_world = (1, initial\<lparr>handlers := True\<rparr>) \<and>
   check_prerequisites demo_world = ([], Inr ())"
  using check_prerequisites_aggregates [of bare_world initial]
    check_prerequisites_aggregates [of demo_world initial]
  by (simp add: bare_world_def demo_world_def check_prerequisites_def)

section \<open>Whole runs\<close>

lemma demo_poll: "poll_health (health demo_world) 0 MAX_ATTEMPTS = (Ready, 3)"
  using poll_health_ready [of 2 20 "health demo_world" 0]
  by (simp add: MAX_ATTEMPTS_def demo_world_def)

lemma never_poll: "poll_health (\<lambda>i. Status 503) 0 MAX_ATTEMPTS = (Exhausted, 20)"
  using poll_health_exhausted [of 20 "\<lambda>i. Status 503" 0]
  by (simp add: MAX_ATTEMPTS_def)

lemmas run_defs =
  main_def async_main_def steps_def and_then_def check_prerequisites_def
  step_show_backends_def step_show_config_def step_validate_config_def
  step_start_server_def connect_client_def step_demo_aggregate_docs_def
  step_demo_analyze_repo_def step_demo_investigate_image_def step_demo_def
  execute_composite_tool_def display_workflow_result_def decode_text_def finish_def
  initial_def

text \<open>The run in which everything works ends with status 0 and the server stopped.\<close>

lemma demo_run: "main demo_world = (0, torn_down)"
  using demo_poll
  by (simp add: run_defs demo_world_def spawned_def lower_def lower_char_def
        cleanup_async_state stack_contents_def stop_server_running torn_down_def)

text \<open>A failing remote call is caught in \<^verbatim>\<open>async_main\<close>, which tears down and exits 1.\<close>

lemma remote_failure_run:
  "main remote_fails_world =
     (1, \<lparr>vmcp_process = Some (spawned\<lparr>delivered := [SIGTERM], exited := True\<rparr>),
          mcp_session = Some ClientSession, exit_stack = Some [],
          released = [Session, Transport], requests = [(''aggregate_docs'', [])],
          probes = 3, handlers = True, loop_running = False\<rparr>)"
  using demo_poll
  by (simp add: run_defs remote_fails_world_def demo_world_def spawned_def
        cleanup_async_state stack_contents_def stop_server_running)

text \<open>
  C1. Teardown before a failing exit happens for a failing remote call
  (\<open>remote_failure_run\<close>), not for the two failures inside
  \<^verbatim>\<open>step_start_server\<close>. When the server never becomes
  ready, and when the transport connection fails, the program exits with status 1
  through \<^verbatim>\<open>sys.exit(1)\<close>, which the handlers \<^verbatim>\<open>except Exception\<close> of
  \<^verbatim>\<open>async_main\<close> and \<^verbatim>\<open>main\<close> do not catch: no teardown runs, no signal is
  sent to the server, and the server is left running.
\<close>

theorem fatal_start_leaves_server_running:
  "main never_ready_world =
     (1, \<lparr>vmcp_process = Some spawned, mcp_session = None, exit_stack = None,
          released = [], requests = [], probes = 20, handlers = True,
          loop_running = False\<rparr>) \<and>
   server_running (snd (main never_ready_world)) \<and>
   main refused_world =
     (1, \<lparr>vmcp_process = Some spawned, mcp_session = None, exit_stack = Some [],
          released = [], requests = [], probes = 3, handlers = True,
          loop_running = False\<rparr>) \<and>
   server_running (snd (main refused_world))"
  using demo_poll never_poll
  by (simp add: run_defs never_ready_world_def refused_world_def demo_world_def spawned_def
        server_running_def)

text \<open>
  C2. When \<^verbatim>\<open>initialize\<close> raises after the transport and the session were entered,
  the program exits with status 1 with both release callbacks still on the resource
  stack: none has fired.
\<close>

theorem failed_handshake_leaves_stack:
  "main handshake_fails_world =
     (1, \<lparr>vmcp_process = Some spawned, mcp_session = Some ClientSession,
          exit_stack = Some [Transport, Session], released = [], requests = [],
          probes = 3, handlers = True, loop_running = False\<rparr>) \<and>
   Transport \<notin> set (released (snd (main handshake_fails_world)))"
  using demo_poll
  by (simp add: run_defs handshake_fails_world_def demo_world_def spawned_def)

section \<open>A termination signal during the run\<close>

lemma async_main_handler: "async_main w s = async_main_except w (steps w s)"
  by (simp add: async_main_def async_main_except_def)

lemma main_handler:
  "main w = main_exit w (async_main w (initial\<lparr>handlers := True, loop_running := True\<rparr>))"
  by (simp add: main_def main_exit_def)

text \<open>The run in \<open>demo_world\<close> is in the state \<open>connected\<close> when the server step is done.\<close>

lemma connected_reached:
  "step_start_server demo_world (initial\<lparr>handlers := True, loop_running := True\<rparr>)
     = (Inr (), connected)"
  using demo_poll
  by (simp add: step_start_server_def connect_client_def initial_def connected_def spawned_def
        demo_world_def)




section \<open>Calls on a closed session\<close>

text \<open>With a session object in \<^verbatim>\<open>mcp_session\<close>, open or closed, the call goes out.\<close>

lemma execute_composite_tool_forwards:
  "mcp_session s = Some c \<Longrightarrow>
   requests (snd (execute_composite_tool w tool_name params s))
     = requests s @ [(tool_name, params)]"
  by (simp add: execute_composite_tool_def Let_def split: sum.splits)

text \<open>
  C8, for a closed session. After the teardown of a complete run the
  session is closed, yet \<^verbatim>\<open>mcp_session\<close> still holds the session object, which is
  not \<^verbatim>\<open>None\<close>: \<^verbatim>\<open>execute_composite_tool\<close> passes the call on to the library and
  returns what the library answers.
\<close>

theorem execute_composite_tool_closed_session_counterexample:
  "snd (main demo_world) = torn_down \<and> session_closed torn_down \<and>
   execute_composite_tool demo_world ''aggregate_docs'' [] torn_down
     \<noteq> (Inl (RuntimeError ''MCP session not initialized''), torn_down) \<and>
   requests (snd (execute_composite_tool demo_world ''aggregate_docs'' [] torn_down))
     = requests torn_down @ [(''aggregate_docs'', [])]"
  using demo_run
  by (simp add: execute_composite_tool_def torn_down_def session_closed_def demo_world_def)

end
